theory Spec2Isabelle
  imports Complex_Main
begin

section \<open>Python numbers\<close>

text \<open>
  The configuration values \<open>failure_rate_threshold\<close> and \<open>open_state_wait\<close> are Python
  numbers (an \<open>int\<close> or a finite \<open>float\<close>); both are rationals, and Python compares an
  \<open>int\<close> with a \<open>float\<close> by value, so they are modelled as \<^typ>\<open>rat\<close>. Counters are
  Python's unbounded integers, \<^typ>\<open>int\<close>.

  A \<open>float\<close> is an IEEE 754 binary64 number. Each arithmetic operation on floats returns
  the exact result rounded to the nearest binary64 number, ties to even; \<open>to_double\<close> is
  that rounding. It covers normal and subnormal numbers; it does not model overflow to
  infinity, which needs a magnitude of at least \<open>2 ^ 1024\<close>: a failure rate lies between
  0 and 100, and the clock readings of \<open>time.time()\<close> are seconds since 1970.
\<close>

fun bit_length :: "nat \<Rightarrow> nat" where
  "bit_length n = (if n = 0 then 0 else Suc (bit_length (n div 2)))"

declare bit_length.simps [simp del]

definition floor_log2 :: "rat \<Rightarrow> int" where
  \<comment> \<open>for \<open>0 < x\<close>, the integer \<open>k\<close> with \<open>2 ^ k \<le> x < 2 ^ (k + 1)\<close>\<close>
  "floor_log2 x =
     (if 1 \<le> x then int (bit_length (nat \<lfloor>x\<rfloor>)) - 1
      else - int (bit_length (nat (\<lceil>1 / x\<rceil> - 1))))"

definition round_half_even :: "rat \<Rightarrow> int" where
  "round_half_even x =
     (let n = \<lfloor>x\<rfloor>; d = x - of_int n
      in if d < 1 / 2 then n
         else if 1 / 2 < d then n + 1
         else if even n then n else n + 1)"

definition pow2 :: "int \<Rightarrow> rat" where
  "pow2 k = (if 0 \<le> k then 2 ^ nat k else 1 / 2 ^ nat (- k))"

definition to_double :: "rat \<Rightarrow> rat" where
  \<comment> \<open>53 significant bits, the unit in the last place never below \<open>2 ^ -1074\<close>\<close>
  "to_double x =
     (if x = 0 then 0
      else let e = max (floor_log2 \<bar>x\<bar> - 52) (- 1074);
               m = round_half_even (\<bar>x\<bar> / pow2 e)
           in sgn x * of_int m * pow2 e)"

definition float_div :: "nat \<Rightarrow> nat \<Rightarrow> rat" where
  \<comment> \<open>\<open>a / b\<close> on two ints, for \<open>b \<noteq> 0\<close>: the correctly rounded quotient\<close>
  "float_div a b = to_double (of_nat a / of_nat b)"

definition float_mul :: "rat \<Rightarrow> rat \<Rightarrow> rat" where
  "float_mul x y = to_double (x * y)"

definition float_sub :: "rat \<Rightarrow> rat \<Rightarrow> rat" where
  "float_sub x y = to_double (x - y)"

section \<open>The deque of recent calls\<close>

text \<open>
  \<open>collections.deque(maxlen=n)\<close>: the bound is fixed when the deque is made and kept in
  the deque. \<open>append\<close> adds at the right and then, if the deque is longer than its bound,
  drops the leftmost element; with bound 0 the deque stays empty. The constructor first
  converts the bound to a C \<open>ssize_t\<close> (64 bits here) and raises \<open>OverflowError\<close> when
  it does not fit; a bound that fits and is negative is refused with \<open>ValueError\<close>.
\<close>

record deque =
  maxlen :: nat
  items :: "bool list"

definition deque_append :: "deque \<Rightarrow> bool \<Rightarrow> deque" where
  "deque_append d x =
     (let ys = items d @ [x]
      in d\<lparr>items := (if maxlen d < length ys then tl ys else ys)\<rparr>)"

definition deque_clear :: "deque \<Rightarrow> deque" where
  "deque_clear d = d\<lparr>items := []\<rparr>"

definition deque_count :: "deque \<Rightarrow> bool \<Rightarrow> nat" where
  "deque_count d x = length (filter (\<lambda>y. y = x) (items d))"

section \<open>The circuit breaker\<close>

datatype State = CLOSED | OPEN | HALF_OPEN

record CircuitBreaker =
  failure_rate_threshold :: rat
  window_size :: int
  half_open_max_calls :: int
  open_state_wait :: rat
  state :: State
  last_failure_time :: "rat option"
  recent_calls :: deque
  half_open_calls :: int
  half_open_success :: int

datatype py_error =
    OverflowError string
  | ValueError string
  | TypeError
  | Exception string

definition CircuitBreaker_init :: "rat \<Rightarrow> int \<Rightarrow> int \<Rightarrow> rat \<Rightarrow> py_error + CircuitBreaker" where
  \<comment> \<open>\<open>__init__\<close>; the only statement that can raise is \<open>deque(maxlen=window_size)\<close>\<close>
  "CircuitBreaker_init threshold wsize max_calls wait =
     (if wsize < - (2 ^ 63) \<or> 2 ^ 63 \<le> wsize
      then Inl (OverflowError ''Python int too large to convert to C ssize_t'')
      else if wsize < 0 then Inl (ValueError ''maxlen must be non-negative'')
      else Inr \<lparr>failure_rate_threshold = threshold,
                window_size = wsize,
                half_open_max_calls = max_calls,
                open_state_wait = wait,
                state = CLOSED,
                last_failure_time = None,
                recent_calls = \<lparr>maxlen = nat wsize, items = []\<rparr>,
                half_open_calls = 0,
                half_open_success = 0\<rparr>)"

definition current_failure_rate :: "CircuitBreaker \<Rightarrow> rat" where
  "current_failure_rate cb =
     (if items (recent_calls cb) = [] then 0
      else float_mul
             (float_div (deque_count (recent_calls cb) False)
                        (length (items (recent_calls cb))))
             100)"

subsection \<open>Transition helpers\<close>

text \<open>
  Each helper prints one line on standard output, and printing is taken to succeed.
  The printed lines are returned beside
  the new breaker, as the list of lines written, in order. The arrow of the messages is
  the character U+2192, here in UTF-8.
\<close>

definition arrow :: string where
  "arrow = [CHR 0xE2, CHR 0x86, CHR 0x92]"

definition transition_to_open :: "rat \<Rightarrow> CircuitBreaker \<Rightarrow> CircuitBreaker \<times> string list" where
  \<comment> \<open>\<open>now\<close> is what \<open>time.time()\<close> returns inside the helper\<close>
  "transition_to_open now cb =
     (cb\<lparr>state := OPEN, last_failure_time := Some now\<rparr>,
      [''[TRANSITION] '' @ arrow @ '' OPEN''])"

definition transition_to_half_open :: "CircuitBreaker \<Rightarrow> CircuitBreaker \<times> string list" where
  "transition_to_half_open cb =
     (cb\<lparr>state := HALF_OPEN, half_open_calls := 0, half_open_success := 0\<rparr>,
      [''[TRANSITION] '' @ arrow @ '' HALF_OPEN''])"

definition transition_to_closed :: "CircuitBreaker \<Rightarrow> CircuitBreaker \<times> string list" where
  "transition_to_closed cb =
     (cb\<lparr>state := CLOSED, recent_calls := deque_clear (recent_calls cb)\<rparr>,
      [''[TRANSITION] '' @ arrow @ '' CLOSED''])"

subsection \<open>Recording an outcome\<close>

definition on_success :: "rat \<Rightarrow> CircuitBreaker \<Rightarrow> CircuitBreaker \<times> string list" where
  "on_success now cb =
     (if state cb = HALF_OPEN then
        (let cb1 = cb\<lparr>half_open_calls := half_open_calls cb + 1\<rparr>;
             cb2 = cb1\<lparr>half_open_success := half_open_success cb1 + 1\<rparr>
         in if half_open_max_calls cb2 \<le> half_open_calls cb2
               \<and> half_open_success cb2 = half_open_calls cb2
            then transition_to_closed cb2
            else (cb2, []))
      else
        (let cb1 = cb\<lparr>recent_calls := deque_append (recent_calls cb) True\<rparr>
         in if failure_rate_threshold cb1 < current_failure_rate cb1
            then transition_to_open now cb1
            else (cb1, [])))"

definition on_failure :: "rat \<Rightarrow> CircuitBreaker \<Rightarrow> CircuitBreaker \<times> string list" where
  "on_failure now cb =
     (if state cb = HALF_OPEN then
        transition_to_open now (cb\<lparr>half_open_calls := half_open_calls cb + 1\<rparr>)
      else
        (let cb1 = cb\<lparr>recent_calls := deque_append (recent_calls cb) False\<rparr>
         in if failure_rate_threshold cb1 < current_failure_rate cb1
            then transition_to_open now cb1
            else (cb1, [])))"

subsection \<open>Calling a function through the breaker\<close>

text \<open>
  The wrapped function is opaque. It runs in a world \<open>'w\<close> (everything outside the
  breaker, the clock included) which it may change, and it returns a value, raises an
  exception that is an instance of \<open>Exception\<close>, or raises one that is not (such as
  \<open>KeyboardInterrupt\<close>), which line 88 does not catch. It does not touch the breaker.
  \<open>clock\<close> reads \<open>time.time()\<close> off the world.
\<close>

datatype ('e, 'r) outcome = Returns 'r | Raises 'e | RaisesBase 'e

datatype 'e raised = Breaker py_error | Func 'e

record ('e, 'r, 'w) call_result =
  result :: "'e raised + 'r"
  breaker :: CircuitBreaker
  world :: 'w
  printed :: "string list"

definition open_check :: "rat \<Rightarrow> CircuitBreaker \<Rightarrow> py_error + CircuitBreaker \<times> string list" where
  \<comment> \<open>lines 72 to 77\<close>
  "open_check now cb =
     (if state cb = OPEN then
        (case last_failure_time cb of
           None \<Rightarrow> Inl TypeError
         | Some t \<Rightarrow>
             if open_state_wait cb \<le> float_sub now t
             then Inr (transition_to_half_open cb)
             else Inl (Exception ''CallNotPermittedException (Circuit is OPEN)''))
      else Inr (cb, []))"

definition call ::
  "('w \<Rightarrow> rat) \<Rightarrow> CircuitBreaker \<Rightarrow> ('w \<Rightarrow> ('e, 'r) outcome \<times> 'w) \<Rightarrow> 'w \<Rightarrow> ('e, 'r, 'w) call_result" where
  "call clock cb func w =
     (case open_check (clock w) cb of
        Inl err \<Rightarrow> \<lparr>result = Inl (Breaker err), breaker = cb, world = w, printed = []\<rparr>
      | Inr (cb1, out1) \<Rightarrow>
          if state cb1 = HALF_OPEN \<and> half_open_max_calls cb1 \<le> half_open_calls cb1
          then \<lparr>result = Inl (Breaker (Exception
                   ''CallNotPermittedException (Too many test calls in HALF_OPEN)'')),
                breaker = cb1, world = w, printed = out1\<rparr>
          else
            (case func w of
               (Returns r, w') \<Rightarrow>
                 (let (cb2, out2) = on_success (clock w') cb1
                  in \<lparr>result = Inr r, breaker = cb2, world = w', printed = out1 @ out2\<rparr>)
             | (Raises e, w') \<Rightarrow>
                 (let (cb2, out2) = on_failure (clock w') cb1
                  in \<lparr>result = Inl (Func e), breaker = cb2, world = w', printed = out1 @ out2\<rparr>)
             | (RaisesBase e, w') \<Rightarrow>
                 \<lparr>result = Inl (Func e), breaker = cb1, world = w', printed = out1\<rparr>))"

subsection \<open>Reachable breakers\<close>

text \<open>
  A breaker is reachable when it is a constructed breaker after some sequence of calls.
  What a call does to the breaker depends only on the two clock readings and on how the
  function ended, so the calls of the definition run in a world that is the clock
  reading alone; \<open>reachable_call_any\<close> below extends it to every world.
\<close>

inductive reachable :: "CircuitBreaker \<Rightarrow> bool" where
  reachable_init:
    "CircuitBreaker_init threshold wsize max_calls wait = Inr cb \<Longrightarrow> reachable cb"
| reachable_call:
    "reachable cb \<Longrightarrow>
     reachable (breaker (call (clock :: rat \<Rightarrow> rat) cb
                           (func :: rat \<Rightarrow> (unit, unit) outcome \<times> rat) w))"

definition breaker_inv :: "CircuitBreaker \<Rightarrow> bool" where
  "breaker_inv cb \<longleftrightarrow>
     0 \<le> window_size cb
     \<and> maxlen (recent_calls cb) = nat (window_size cb)
     \<and> length (items (recent_calls cb)) \<le> maxlen (recent_calls cb)
     \<and> (state cb = OPEN \<longrightarrow> last_failure_time cb \<noteq> None)
     \<and> (state cb = HALF_OPEN \<longrightarrow> half_open_success cb = half_open_calls cb)
     \<and> (state cb = HALF_OPEN \<longrightarrow> 0 < half_open_max_calls cb \<longrightarrow>
          half_open_calls cb < half_open_max_calls cb)"

subsection \<open>The demo, and a stub for tests\<close>

definition unstable_service :: "bool \<Rightarrow> 'w \<Rightarrow> (string, string) outcome \<times> 'w" where
  "unstable_service should_fail w =
     (if should_fail then (Raises ''Service failed!'', w) else (Returns ''Success!'', w))"

definition demo_breaker :: CircuitBreaker where
  \<comment> \<open>\<open>CircuitBreaker(50, 4, 2, 3)\<close>, the breaker of the demo\<close>
  "demo_breaker =
     \<lparr>failure_rate_threshold = 50, window_size = 4, half_open_max_calls = 2,
      open_state_wait = 3, state = CLOSED, last_failure_time = None,
      recent_calls = \<lparr>maxlen = 4, items = []\<rparr>,
      half_open_calls = 0, half_open_success = 0\<rparr>"

definition tripped_breaker :: CircuitBreaker where
  \<comment> \<open>the demo breaker after a success and two failures, the last one ending at time 10\<close>
  "tripped_breaker =
     \<lparr>failure_rate_threshold = 50, window_size = 4, half_open_max_calls = 2,
      open_state_wait = 3, state = OPEN, last_failure_time = Some 10,
      recent_calls = \<lparr>maxlen = 4, items = [True, False, False]\<rparr>,
      half_open_calls = 0, half_open_success = 0\<rparr>"

definition probing_breaker :: CircuitBreaker where
  \<comment> \<open>the tripped breaker after one successful trial\<close>
  "probing_breaker =
     \<lparr>failure_rate_threshold = 50, window_size = 4, half_open_max_calls = 2,
      open_state_wait = 3, state = HALF_OPEN, last_failure_time = Some 10,
      recent_calls = \<lparr>maxlen = 4, items = [True, False, False]\<rparr>,
      half_open_calls = 1, half_open_success = 1\<rparr>"

definition small_breaker :: CircuitBreaker where
  \<comment> \<open>\<open>CircuitBreaker(50, 2, 2, 3)\<close> after a success and a failure: the window is full\<close>
  "small_breaker =
     \<lparr>failure_rate_threshold = 50, window_size = 2, half_open_max_calls = 2,
      open_state_wait = 3, state = CLOSED, last_failure_time = None,
      recent_calls = \<lparr>maxlen = 2, items = [True, False]\<rparr>,
      half_open_calls = 0, half_open_success = 0\<rparr>"

definition zero_budget_breaker :: CircuitBreaker where
  \<comment> \<open>\<open>CircuitBreaker(50, 4, 0, 3)\<close> after one failure ending at time 10\<close>
  "zero_budget_breaker =
     \<lparr>failure_rate_threshold = 50, window_size = 4, half_open_max_calls = 0,
      open_state_wait = 3, state = OPEN, last_failure_time = Some 10,
      recent_calls = \<lparr>maxlen = 4, items = [False]\<rparr>,
      half_open_calls = 0, half_open_success = 0\<rparr>"

definition stub_service :: "bool \<Rightarrow> rat \<times> nat \<Rightarrow> (string, string) outcome \<times> (rat \<times> nat)" where
  \<comment> \<open>the demo service in a world of a clock and a counter of invocations: each
      invocation takes one second and is counted\<close>
  "stub_service should_fail w =
     (fst (unstable_service should_fail w), (fst w + 1, Suc (snd w)))"

definition transition_line :: "State \<Rightarrow> string" where
  \<comment> \<open>the line that the transition helper into a mode prints\<close>
  "transition_line s =
     ''[TRANSITION] '' @ arrow @ '' '' @
       (case s of CLOSED \<Rightarrow> ''CLOSED'' | OPEN \<Rightarrow> ''OPEN'' | HALF_OPEN \<Rightarrow> ''HALF_OPEN'')"

section \<open>Rounding to binary64 on examples\<close>

lemma to_double_half: "float_mul (float_div 1 2) 100 = 50"
  by code_simp

lemma to_double_two_thirds:
  "float_mul (float_div 2 3) 100 = 2345624805922133 / 35184372088832"
  by code_simp

lemma to_double_one_third:
  "float_mul (float_div 1 3) 100 = 2345624805922133 / 70368744177664"
  by code_simp

lemma to_double_seven_percent: "float_mul (float_div 7 100) 100 = 7 + 1 / 2 ^ 50"
  by code_simp

lemma to_double_elapsed: "float_sub (3 / 10) (1 / 10) = 3602879701896397 / 18014398509481984"
  by code_simp

section \<open>Invariants of reachable breakers\<close>

lemma length_deque_append:
  "length (items d) \<le> maxlen d \<Longrightarrow> length (items (deque_append d x)) \<le> maxlen d"
  by (simp add: deque_append_def Let_def)

lemma maxlen_deque_append [simp]: "maxlen (deque_append d x) = maxlen d"
  by (simp add: deque_append_def Let_def)

lemma init_inv: "CircuitBreaker_init threshold wsize max_calls wait = Inr cb \<Longrightarrow> breaker_inv cb"
  by (auto simp: CircuitBreaker_init_def breaker_inv_def split: if_splits)

lemma on_success_inv: "breaker_inv cb \<Longrightarrow> breaker_inv (fst (on_success now cb))"
  using length_deque_append [of "recent_calls cb" True]
  by (simp add: on_success_def breaker_inv_def transition_to_open_def transition_to_closed_def
      deque_clear_def Let_def)

lemma on_failure_inv: "breaker_inv cb \<Longrightarrow> breaker_inv (fst (on_failure now cb))"
  using length_deque_append [of "recent_calls cb" False]
  by (simp add: on_failure_def breaker_inv_def transition_to_open_def Let_def)

lemma open_check_inv:
  "breaker_inv cb \<Longrightarrow> open_check now cb = Inr (cb1, out1) \<Longrightarrow> breaker_inv cb1"
  by (auto simp: open_check_def breaker_inv_def transition_to_half_open_def
      split: if_splits option.splits)

lemma call_inv:
  assumes "breaker_inv cb"
  shows "breaker_inv (breaker (call clock cb func w))"
proof (cases "open_check (clock w) cb")
  case (Inl err)
  then show ?thesis using assms by (simp add: call_def)
next
  case (Inr p)
  obtain cb1 out1 where p: "p = (cb1, out1)" by (cases p)
  have inv1: "breaker_inv cb1" using assms Inr p by (auto dest: open_check_inv)
  obtain oc w' where f: "func w = (oc, w')" by (cases "func w")
  show ?thesis
  proof (cases oc)
    case (Returns r)
    then show ?thesis
      using Inr p f inv1 on_success_inv [of cb1 "clock w'"]
      by (simp add: call_def split_beta)
  next
    case (Raises e)
    then show ?thesis
      using Inr p f inv1 on_failure_inv [of cb1 "clock w'"]
      by (simp add: call_def split_beta)
  next
    case (RaisesBase e)
    then show ?thesis using Inr p f inv1 by (simp add: call_def)
  qed
qed

lemma reachable_inv: "reachable cb \<Longrightarrow> breaker_inv cb"
  by (induction rule: reachable.induct) (auto intro: init_inv call_inv)

lemma reachable_open_has_time:
  "reachable cb \<Longrightarrow> state cb = OPEN \<Longrightarrow> \<exists>t. last_failure_time cb = Some t"
  by (auto dest: reachable_inv simp: breaker_inv_def)

lemma reachable_half_open_budget:
  "reachable cb \<Longrightarrow> state cb = HALF_OPEN \<Longrightarrow> 0 < half_open_max_calls cb \<Longrightarrow>
   half_open_calls cb < half_open_max_calls cb"
  by (auto dest: reachable_inv simp: breaker_inv_def)

lemma call_breaker_any:
  "breaker (call clock cb func w) =
   breaker (call (\<lambda>t. t) cb
      (\<lambda>_. (case fst (func w) of Returns _ \<Rightarrow> Returns () | Raises _ \<Rightarrow> Raises ()
                                | RaisesBase _ \<Rightarrow> RaisesBase (),
            clock (snd (func w))))
      (clock w))"
  by (cases "func w"; cases "fst (func w)")
     (auto simp: call_def split_beta split: sum.splits)

lemma reachable_call_any: "reachable cb \<Longrightarrow> reachable (breaker (call clock cb func w))"
  by (subst call_breaker_any) (rule reachable_call)

lemma demo_breaker_init: "CircuitBreaker_init 50 4 2 3 = Inr demo_breaker"
  by (simp add: CircuitBreaker_init_def demo_breaker_def)

lemma demo_breaker_reachable: "reachable demo_breaker"
  by (rule reachable_init [OF demo_breaker_init])

section \<open>The demo scenario, step by step\<close>

lemma float_sub_14_10: "float_sub 14 10 = 4" by code_simp
lemma float_sub_11_10: "float_sub 11 10 = 1" by code_simp
lemma float_rate_0_1: "float_mul (float_div 0 1) 100 = 0" by code_simp
lemma float_rate_1_1: "float_mul (float_div 1 1) 100 = 100" by code_simp

lemma rate_empty: "items (recent_calls cb) = [] \<Longrightarrow> current_failure_rate cb = 0"
  by (simp add: current_failure_rate_def)

lemma rate_T: "items (recent_calls cb) = [True] \<Longrightarrow> current_failure_rate cb = 0"
  using float_rate_0_1 by (simp add: current_failure_rate_def deque_count_def)

lemma rate_F: "items (recent_calls cb) = [False] \<Longrightarrow> current_failure_rate cb = 100"
  using float_rate_1_1 by (simp add: current_failure_rate_def deque_count_def)

lemma rate_TF: "items (recent_calls cb) = [True, False] \<Longrightarrow> current_failure_rate cb = 50"
  using to_double_half by (simp add: current_failure_rate_def deque_count_def numeral_2_eq_2)

lemma rate_TFF:
  "items (recent_calls cb) = [True, False, False] \<Longrightarrow>
   current_failure_rate cb = 2345624805922133 / 35184372088832"
  using to_double_two_thirds
  by (simp add: current_failure_rate_def deque_count_def numeral_2_eq_2 numeral_3_eq_3)

lemmas call_eval = call_def open_check_def on_success_def on_failure_def stub_service_def
  unstable_service_def deque_append_def deque_clear_def transition_to_open_def
  transition_to_half_open_def transition_to_closed_def transition_line_def

lemma demo_step1: "call fst demo_breaker (stub_service False) (7, 0) =
  \<lparr>result = Inr ''Success!'',
   breaker = demo_breaker\<lparr>recent_calls := \<lparr>maxlen = 4, items = [True]\<rparr>\<rparr>,
   world = (8, 1), printed = []\<rparr>"
  by (simp add: call_eval demo_breaker_def rate_T)

lemma demo_step2:
  "call fst (demo_breaker\<lparr>recent_calls := \<lparr>maxlen = 4, items = [True]\<rparr>\<rparr>)
     (stub_service True) (8, 1) =
  \<lparr>result = Inl (Func ''Service failed!''),
   breaker = demo_breaker\<lparr>recent_calls := \<lparr>maxlen = 4, items = [True, False]\<rparr>\<rparr>,
   world = (9, 2), printed = []\<rparr>"
  by (simp add: call_eval demo_breaker_def rate_TF)

lemma demo_step3:
  "call fst (demo_breaker\<lparr>recent_calls := \<lparr>maxlen = 4, items = [True, False]\<rparr>\<rparr>)
     (stub_service True) (9, 2) =
  \<lparr>result = Inl (Func ''Service failed!''), breaker = tripped_breaker,
   world = (10, 3), printed = [transition_line OPEN]\<rparr>"
  by (simp add: call_eval demo_breaker_def tripped_breaker_def rate_TFF)

lemma demo_step4:
  "call fst tripped_breaker (stub_service False) (10, 3) =
  \<lparr>result = Inl (Breaker (Exception ''CallNotPermittedException (Circuit is OPEN)'')),
   breaker = tripped_breaker, world = (10, 3), printed = []\<rparr>"
  by (simp add: call_eval tripped_breaker_def float_sub_def to_double_def)

lemma demo_step5:
  "call fst tripped_breaker (stub_service False) (14, 3) =
  \<lparr>result = Inr ''Success!'', breaker = probing_breaker,
   world = (15, 4), printed = [transition_line HALF_OPEN]\<rparr>"
  by (simp add: call_eval tripped_breaker_def probing_breaker_def float_sub_14_10)

lemma demo_step6:
  "call fst probing_breaker (stub_service False) (15, 4) =
  \<lparr>result = Inr ''Success!'',
   breaker = demo_breaker\<lparr>last_failure_time := Some 10, half_open_calls := 2,
               half_open_success := 2\<rparr>,
   world = (16, 5), printed = [transition_line CLOSED]\<rparr>"
  by (simp add: call_eval demo_breaker_def probing_breaker_def)

lemma zero_budget_breaker_reachable: "reachable zero_budget_breaker"
proof -
  let ?c0 = "zero_budget_breaker\<lparr>state := CLOSED, last_failure_time := None,
               recent_calls := \<lparr>maxlen = 4, items = []\<rparr>\<rparr>"
  have "CircuitBreaker_init 50 4 0 3 = Inr ?c0"
    by (simp add: CircuitBreaker_init_def zero_budget_breaker_def)
  then have "reachable ?c0" by (rule reachable_init)
  then have "reachable (breaker (call fst ?c0 (stub_service True) (9, 0)))"
    by (rule reachable_call_any)
  moreover have "breaker (call fst ?c0 (stub_service True) (9, 0)) = zero_budget_breaker"
    by (simp add: call_eval zero_budget_breaker_def rate_F)
  ultimately show ?thesis by simp
qed

lemma tripped_breaker_reachable: "reachable tripped_breaker"
proof -
  have "reachable (breaker (call fst demo_breaker (stub_service False) (7, 0)))"
    by (rule reachable_call_any [OF demo_breaker_reachable])
  with demo_step1 have "reachable (demo_breaker\<lparr>recent_calls := \<lparr>maxlen = 4, items = [True]\<rparr>\<rparr>)"
    by simp
  then have "reachable (breaker (call fst
      (demo_breaker\<lparr>recent_calls := \<lparr>maxlen = 4, items = [True]\<rparr>\<rparr>) (stub_service True) (8, 1)))"
    by (rule reachable_call_any)
  with demo_step2 have "reachable (demo_breaker\<lparr>recent_calls := \<lparr>maxlen = 4, items = [True, False]\<rparr>\<rparr>)"
    by simp
  then have "reachable (breaker (call fst
      (demo_breaker\<lparr>recent_calls := \<lparr>maxlen = 4, items = [True, False]\<rparr>\<rparr>)
      (stub_service True) (9, 2)))"
    by (rule reachable_call_any)
  with demo_step3 show ?thesis by simp
qed

lemma probing_breaker_reachable: "reachable probing_breaker"
proof -
  have "reachable (breaker (call fst tripped_breaker (stub_service False) (14, 3)))"
    by (rule reachable_call_any [OF tripped_breaker_reachable])
  with demo_step5 show ?thesis by simp
qed

section \<open>Admission\<close>

lemma open_call_without_budget:
  assumes "state cb = OPEN" and "last_failure_time cb = Some t"
    and "half_open_max_calls cb \<le> 0" and "open_state_wait cb \<le> float_sub (clock w) t"
  shows "call clock cb func w =
           \<lparr>result = Inl (Breaker (Exception
               ''CallNotPermittedException (Too many test calls in HALF_OPEN)'')),
            breaker = cb\<lparr>state := HALF_OPEN, half_open_calls := 0, half_open_success := 0\<rparr>,
            world = w, printed = [transition_line HALF_OPEN]\<rparr>"
  using assms
  by (simp add: call_def open_check_def transition_to_half_open_def transition_line_def)

text \<open>
  C1, as the specification has it: on an OPEN breaker, once \<open>open_state_wait\<close> has
  elapsed, a call moves the breaker to HALF_OPEN and is admitted as a trial. The
  constructor accepts \<open>half_open_max_calls = 0\<close>; on that breaker, tripped at time 10 and
  called at time 14 with a wait of 3, the call moves the breaker to HALF_OPEN and is then
  refused by the check of the trial budget: it raises, and the counter of invocations of
  the stub is as it was.
\<close>

theorem C1_zero_budget_counterexample:
  "reachable zero_budget_breaker
   \<and> state zero_budget_breaker = OPEN
   \<and> last_failure_time zero_budget_breaker = Some 10
   \<and> open_state_wait zero_budget_breaker \<le> float_sub (fst (14 :: rat, 0 :: nat)) 10
   \<and> call fst zero_budget_breaker (stub_service False) (14, 0) =
       \<lparr>result = Inl (Breaker (Exception
           ''CallNotPermittedException (Too many test calls in HALF_OPEN)'')),
        breaker = zero_budget_breaker\<lparr>state := HALF_OPEN\<rparr>,
        world = (14, 0), printed = [transition_line HALF_OPEN]\<rparr>"
proof -
  have h: "state zero_budget_breaker = OPEN" "last_failure_time zero_budget_breaker = Some 10"
    "half_open_max_calls zero_budget_breaker \<le> 0"
    "open_state_wait zero_budget_breaker \<le> float_sub (fst (14 :: rat, 0 :: nat)) 10"
    by (simp_all add: zero_budget_breaker_def float_sub_14_10)
  from open_call_without_budget [where clock = fst and w = "(14 :: rat, 0 :: nat)"
      and func = "stub_service False", OF h]
  have "call fst zero_budget_breaker (stub_service False) (14, 0) =
       \<lparr>result = Inl (Breaker (Exception
           ''CallNotPermittedException (Too many test calls in HALF_OPEN)'')),
        breaker = zero_budget_breaker\<lparr>state := HALF_OPEN\<rparr>,
        world = (14, 0), printed = [transition_line HALF_OPEN]\<rparr>"
    by (simp add: zero_budget_breaker_def)
  with h zero_budget_breaker_reachable show ?thesis by simp
qed

text \<open>
  C1, as the code has it. A call made while the breaker is OPEN, with the time of the
  trip recorded (as it is in every reachable OPEN breaker). If the time elapsed since
  the trip, \<open>time.time() - last_failure_time\<close>, is at least \<open>open_state_wait\<close>, the breaker
  first moves to HALF_OPEN with both counters at 0 and the line of that transition is
  printed; then, when \<open>half_open_max_calls\<close> is positive, the call is the call of a trial
  on that breaker, which invokes the function and hands back its outcome, and when
  \<open>half_open_max_calls\<close> is 0 or below, the call raises \<open>CallNotPermittedException (Too
  many test calls in HALF_OPEN)\<close> and the function is not invoked. If less time has
  elapsed, the call raises \<open>CallNotPermittedException (Circuit is OPEN)\<close>, and neither
  the world nor the breaker changes, whatever the function is: the function is not
  invoked.
\<close>

theorem C1_open_admission:
  assumes "state cb = OPEN" and "last_failure_time cb = Some t"
  shows "(open_state_wait cb \<le> float_sub (clock w) t \<and> 0 < half_open_max_calls cb \<longrightarrow>
            (let cbH = cb\<lparr>state := HALF_OPEN, half_open_calls := 0, half_open_success := 0\<rparr>;
                 trial = call clock cbH func w
             in call clock cb func w
                  = trial\<lparr>printed := transition_line HALF_OPEN # printed trial\<rparr>
                \<and> world trial = snd (func w)
                \<and> result trial = (case fst (func w) of Returns r \<Rightarrow> Inr r
                      | Raises e \<Rightarrow> Inl (Func e) | RaisesBase e \<Rightarrow> Inl (Func e))))
       \<and> (open_state_wait cb \<le> float_sub (clock w) t \<and> half_open_max_calls cb \<le> 0 \<longrightarrow>
            call clock cb func w =
              \<lparr>result = Inl (Breaker (Exception
                  ''CallNotPermittedException (Too many test calls in HALF_OPEN)'')),
               breaker = cb\<lparr>state := HALF_OPEN, half_open_calls := 0,
                           half_open_success := 0\<rparr>,
               world = w, printed = [transition_line HALF_OPEN]\<rparr>)
       \<and> (\<not> open_state_wait cb \<le> float_sub (clock w) t \<longrightarrow>
            call clock cb func w =
              \<lparr>result = Inl (Breaker (Exception
                  ''CallNotPermittedException (Circuit is OPEN)'')),
               breaker = cb, world = w, printed = []\<rparr>)"
proof (intro conjI impI)
  assume "\<not> open_state_wait cb \<le> float_sub (clock w) t"
  then show "call clock cb func w =
      \<lparr>result = Inl (Breaker (Exception ''CallNotPermittedException (Circuit is OPEN)'')),
       breaker = cb, world = w, printed = []\<rparr>"
    using assms by (simp add: call_def open_check_def)
next
  assume "open_state_wait cb \<le> float_sub (clock w) t \<and> half_open_max_calls cb \<le> 0"
  then show "call clock cb func w =
      \<lparr>result = Inl (Breaker (Exception
          ''CallNotPermittedException (Too many test calls in HALF_OPEN)'')),
       breaker = cb\<lparr>state := HALF_OPEN, half_open_calls := 0, half_open_success := 0\<rparr>,
       world = w, printed = [transition_line HALF_OPEN]\<rparr>"
    using assms by (simp add: open_call_without_budget)
next
  assume el: "open_state_wait cb \<le> float_sub (clock w) t \<and> 0 < half_open_max_calls cb"
  obtain oc w' where f: "func w = (oc, w')" by (cases "func w")
  show "let cbH = cb\<lparr>state := HALF_OPEN, half_open_calls := 0, half_open_success := 0\<rparr>;
            trial = call clock cbH func w
        in call clock cb func w = trial\<lparr>printed := transition_line HALF_OPEN # printed trial\<rparr>
           \<and> world trial = snd (func w)
           \<and> result trial = (case fst (func w) of Returns r \<Rightarrow> Inr r
                 | Raises e \<Rightarrow> Inl (Func e) | RaisesBase e \<Rightarrow> Inl (Func e))"
    using assms el f
    by (cases oc)
       (simp_all add: call_def open_check_def transition_to_half_open_def transition_line_def
          Let_def split_beta)
qed

theorem C1_open_admission_witness:
  "call fst tripped_breaker (stub_service False) (14, 0) =
     \<lparr>result = Inr ''Success!'',
      breaker = tripped_breaker\<lparr>state := HALF_OPEN, half_open_calls := 1, half_open_success := 1\<rparr>,
      world = (15, 1), printed = [transition_line HALF_OPEN]\<rparr>
   \<and> call fst (tripped_breaker\<lparr>half_open_max_calls := 0\<rparr>) (stub_service False) (14, 0) =
     \<lparr>result = Inl (Breaker (Exception
         ''CallNotPermittedException (Too many test calls in HALF_OPEN)'')),
      breaker = tripped_breaker\<lparr>half_open_max_calls := 0, state := HALF_OPEN\<rparr>,
      world = (14, 0), printed = [transition_line HALF_OPEN]\<rparr>
   \<and> call fst tripped_breaker (stub_service False) (11, 0) =
     \<lparr>result = Inl (Breaker (Exception ''CallNotPermittedException (Circuit is OPEN)'')),
      breaker = tripped_breaker, world = (11, 0), printed = []\<rparr>"
proof -
  have h: "state tripped_breaker = OPEN" "last_failure_time tripped_breaker = Some 10"
    by (simp_all add: tripped_breaker_def)
  have h0: "state (tripped_breaker\<lparr>half_open_max_calls := 0\<rparr>) = OPEN"
    "last_failure_time (tripped_breaker\<lparr>half_open_max_calls := 0\<rparr>) = Some 10"
    by (simp_all add: tripped_breaker_def)
  have yes: "open_state_wait tripped_breaker \<le> float_sub (fst (14::rat, 0::nat)) 10
      \<and> 0 < half_open_max_calls tripped_breaker"
    by (simp add: tripped_breaker_def float_sub_14_10)
  have zero: "open_state_wait (tripped_breaker\<lparr>half_open_max_calls := 0\<rparr>)
        \<le> float_sub (fst (14::rat, 0::nat)) 10
      \<and> half_open_max_calls (tripped_breaker\<lparr>half_open_max_calls := 0\<rparr>) \<le> 0"
    by (simp add: tripped_breaker_def float_sub_14_10)
  have no: "\<not> open_state_wait tripped_breaker \<le> float_sub (fst (11::rat, 0::nat)) 10"
    by (simp add: tripped_breaker_def float_sub_11_10)
  from C1_open_admission [OF h, of fst "(14, 0)" "stub_service False"] yes
  have a: "call fst tripped_breaker (stub_service False) (14, 0) =
     \<lparr>result = Inr ''Success!'',
      breaker = tripped_breaker\<lparr>state := HALF_OPEN, half_open_calls := 1, half_open_success := 1\<rparr>,
      world = (15, 1), printed = [transition_line HALF_OPEN]\<rparr>"
    by (simp add: Let_def call_def open_check_def on_success_def stub_service_def
        unstable_service_def tripped_breaker_def)
  from C1_open_admission [OF h0, of fst "(14, 0)" "stub_service False"] zero
  have z: "call fst (tripped_breaker\<lparr>half_open_max_calls := 0\<rparr>) (stub_service False) (14, 0) =
     \<lparr>result = Inl (Breaker (Exception
         ''CallNotPermittedException (Too many test calls in HALF_OPEN)'')),
      breaker = tripped_breaker\<lparr>half_open_max_calls := 0, state := HALF_OPEN\<rparr>,
      world = (14, 0), printed = [transition_line HALF_OPEN]\<rparr>"
    by (simp add: tripped_breaker_def)
  from C1_open_admission [OF h, of fst "(11, 0)" "stub_service False"] no
  have b: "call fst tripped_breaker (stub_service False) (11, 0) =
     \<lparr>result = Inl (Breaker (Exception ''CallNotPermittedException (Circuit is OPEN)'')),
      breaker = tripped_breaker, world = (11, 0), printed = []\<rparr>"
    by simp
  from a z b show ?thesis by simp
qed

text \<open>
  C8. A call made while the breaker is HALF_OPEN with \<open>half_open_calls\<close> at or above
  \<open>half_open_max_calls\<close> raises \<open>CallNotPermittedException (Too many test calls in
  HALF_OPEN)\<close>; the world and the breaker are returned as they were and nothing is
  printed, whatever the function is: the function is not invoked and no state changes.
\<close>

theorem C8_half_open_budget_exhausted:
  assumes "state cb = HALF_OPEN" and "half_open_max_calls cb \<le> half_open_calls cb"
  shows "call clock cb func w =
           \<lparr>result = Inl (Breaker (Exception
               ''CallNotPermittedException (Too many test calls in HALF_OPEN)'')),
            breaker = cb, world = w, printed = []\<rparr>"
  using assms by (simp add: call_def open_check_def)

theorem C8_half_open_budget_exhausted_witness:
  "state (probing_breaker\<lparr>half_open_calls := 2\<rparr>) = HALF_OPEN
   \<and> half_open_max_calls (probing_breaker\<lparr>half_open_calls := 2\<rparr>)
       \<le> half_open_calls (probing_breaker\<lparr>half_open_calls := 2\<rparr>)
   \<and> call fst (probing_breaker\<lparr>half_open_calls := 2\<rparr>) (stub_service False) (20, 0) =
       \<lparr>result = Inl (Breaker (Exception
           ''CallNotPermittedException (Too many test calls in HALF_OPEN)'')),
        breaker = probing_breaker\<lparr>half_open_calls := 2\<rparr>, world = (20, 0), printed = []\<rparr>"
proof -
  have h: "state (probing_breaker\<lparr>half_open_calls := 2\<rparr>) = HALF_OPEN"
    "half_open_max_calls (probing_breaker\<lparr>half_open_calls := 2\<rparr>)
       \<le> half_open_calls (probing_breaker\<lparr>half_open_calls := 2\<rparr>)"
    by (simp_all add: probing_breaker_def)
  from h C8_half_open_budget_exhausted [OF h, of fst "stub_service False" "(20, 0)"]
  show ?thesis by simp
qed

section \<open>Recording the outcome of a trial\<close>

text \<open>
  C3. A trial call that returns while the breaker is HALF_OPEN (a call admitted there,
  so with \<open>half_open_calls\<close> below \<open>half_open_max_calls\<close>): the result is handed back,
  \<open>half_open_calls\<close> and \<open>half_open_success\<close> are both one more than before, and with
  the new values, if \<open>half_open_calls\<close> has reached \<open>half_open_max_calls\<close> and
  \<open>half_open_success\<close> equals \<open>half_open_calls\<close>, the breaker is CLOSED with an empty
  window; if not, it is still HALF_OPEN, with the window it had.
\<close>

theorem C3_half_open_success:
  assumes "state cb = HALF_OPEN" and "half_open_calls cb < half_open_max_calls cb"
    and "func w = (Returns r, w')"
  shows "let cb' = breaker (call clock cb func w)
         in result (call clock cb func w) = Inr r
            \<and> half_open_calls cb' = half_open_calls cb + 1
            \<and> half_open_success cb' = half_open_success cb + 1
            \<and> (half_open_max_calls cb \<le> half_open_calls cb'
                  \<and> half_open_success cb' = half_open_calls cb'
                \<longrightarrow> state cb' = CLOSED \<and> items (recent_calls cb') = [])
            \<and> (\<not> (half_open_max_calls cb \<le> half_open_calls cb'
                     \<and> half_open_success cb' = half_open_calls cb')
                \<longrightarrow> state cb' = HALF_OPEN \<and> recent_calls cb' = recent_calls cb)"
  using assms
  by (simp add: call_def open_check_def on_success_def transition_to_closed_def
      deque_clear_def Let_def)

theorem C3_half_open_success_witness:
  "(let cb' = breaker (call fst probing_breaker (stub_service False) (15, 4))
    in half_open_calls cb' = 2 \<and> half_open_success cb' = 2 \<and> state cb' = CLOSED
       \<and> items (recent_calls cb') = [])
   \<and> (let cb' = breaker (call fst (probing_breaker\<lparr>half_open_calls := 0, half_open_success := 0\<rparr>)
                          (stub_service False) (15, 4))
      in half_open_calls cb' = 1 \<and> half_open_success cb' = 1 \<and> state cb' = HALF_OPEN
         \<and> items (recent_calls cb') = [True, False, False])"
proof -
  have f: "stub_service False (15, 4) = (Returns ''Success!'', (16, 5))"
    by (simp add: stub_service_def unstable_service_def)
  have h: "state probing_breaker = HALF_OPEN"
    "half_open_calls probing_breaker < half_open_max_calls probing_breaker"
    by (simp_all add: probing_breaker_def)
  have h': "state (probing_breaker\<lparr>half_open_calls := 0, half_open_success := 0\<rparr>) = HALF_OPEN"
    "half_open_calls (probing_breaker\<lparr>half_open_calls := 0, half_open_success := 0\<rparr>)
       < half_open_max_calls (probing_breaker\<lparr>half_open_calls := 0, half_open_success := 0\<rparr>)"
    by (simp_all add: probing_breaker_def)
  from C3_half_open_success [where func = "stub_service False" and w = "(15, 4)" and clock = fst, OF h f]
  have a: "let cb' = breaker (call fst probing_breaker (stub_service False) (15, 4))
    in half_open_calls cb' = 2 \<and> half_open_success cb' = 2 \<and> state cb' = CLOSED
       \<and> items (recent_calls cb') = []"
    by (simp add: Let_def probing_breaker_def)
  from C3_half_open_success [where func = "stub_service False" and w = "(15, 4)" and clock = fst, OF h' f]
  have b: "let cb' = breaker (call fst (probing_breaker\<lparr>half_open_calls := 0, half_open_success := 0\<rparr>)
                          (stub_service False) (15, 4))
      in half_open_calls cb' = 1 \<and> half_open_success cb' = 1 \<and> state cb' = HALF_OPEN
         \<and> items (recent_calls cb') = [True, False, False]"
    by (simp add: Let_def probing_breaker_def)
  from a b show ?thesis by simp
qed

text \<open>
  C4. A trial call that raises while the breaker is HALF_OPEN: whatever
  \<open>half_open_success\<close> is, \<open>half_open_calls\<close> is one more than before, the breaker is
  OPEN, and \<open>last_failure_time\<close> is the clock reading taken when the function has ended;
  the exception of the function is raised again.
\<close>

theorem C4_half_open_failure:
  assumes "state cb = HALF_OPEN" and "half_open_calls cb < half_open_max_calls cb"
    and "func w = (Raises e, w')"
  shows "call clock cb func w =
           \<lparr>result = Inl (Func e),
            breaker = cb\<lparr>half_open_calls := half_open_calls cb + 1, state := OPEN,
                        last_failure_time := Some (clock w')\<rparr>,
            world = w', printed = [transition_line OPEN]\<rparr>"
  using assms
  by (simp add: call_def open_check_def on_failure_def transition_to_open_def
      transition_line_def)

theorem C4_half_open_failure_witness:
  "state probing_breaker = HALF_OPEN
   \<and> half_open_calls probing_breaker < half_open_max_calls probing_breaker
   \<and> half_open_success probing_breaker = 1
   \<and> call fst probing_breaker (stub_service True) (20, 4) =
       \<lparr>result = Inl (Func ''Service failed!''),
        breaker = probing_breaker\<lparr>half_open_calls := 2, state := OPEN,
                    last_failure_time := Some 21\<rparr>,
        world = (21, 5), printed = [transition_line OPEN]\<rparr>"
proof -
  have f: "stub_service True (20, 4) = (Raises ''Service failed!'', (21, 5))"
    by (simp add: stub_service_def unstable_service_def)
  have h: "state probing_breaker = HALF_OPEN"
    "half_open_calls probing_breaker < half_open_max_calls probing_breaker"
    by (simp_all add: probing_breaker_def)
  from h C4_half_open_failure [where func = "stub_service True" and w = "(20, 4)" and clock = fst, OF h f]
  show ?thesis by (simp add: probing_breaker_def)
qed

section \<open>Recording an outcome while CLOSED\<close>


lemma rate_transition_to_open [simp]:
  "current_failure_rate (fst (transition_to_open now cb)) = current_failure_rate cb"
  by (simp add: current_failure_rate_def transition_to_open_def)

lemma closed_call_returns:
  assumes "state cb = CLOSED" and "func w = (Returns r, w')"
  shows "call clock cb func w =
     (let cb1 = cb\<lparr>recent_calls := deque_append (recent_calls cb) True\<rparr>
      in if failure_rate_threshold cb < current_failure_rate cb1
         then \<lparr>result = Inr r,
               breaker = cb1\<lparr>state := OPEN, last_failure_time := Some (clock w')\<rparr>,
               world = w', printed = [transition_line OPEN]\<rparr>
         else \<lparr>result = Inr r, breaker = cb1, world = w', printed = []\<rparr>)"
  using assms
  by (simp add: call_def open_check_def on_success_def transition_to_open_def
      transition_line_def Let_def)

lemma closed_call_raises:
  assumes "state cb = CLOSED" and "func w = (Raises e, w')"
  shows "call clock cb func w =
     (let cb1 = cb\<lparr>recent_calls := deque_append (recent_calls cb) False\<rparr>
      in if failure_rate_threshold cb < current_failure_rate cb1
         then \<lparr>result = Inl (Func e),
               breaker = cb1\<lparr>state := OPEN, last_failure_time := Some (clock w')\<rparr>,
               world = w', printed = [transition_line OPEN]\<rparr>
         else \<lparr>result = Inl (Func e), breaker = cb1, world = w', printed = []\<rparr>)"
  using assms
  by (simp add: call_def open_check_def on_failure_def transition_to_open_def
      transition_line_def Let_def)

lemma rate_state_irrelevant [simp]:
  "current_failure_rate (cb\<lparr>state := s, last_failure_time := t\<rparr>) = current_failure_rate cb"
  by (simp add: current_failure_rate_def)



text \<open>
  C7. A call that returns while the breaker is CLOSED: \<open>True\<close> is appended to the
  window (the deque drops its oldest entry when it is over its bound); the failure rate
  is computed over the new window, 0 if it is empty and otherwise its number of \<open>False\<close>
  entries divided by its length, times 100; and if that rate is above
  \<open>failure_rate_threshold\<close> the breaker is OPEN, the trip timed at the end of the
  function, although the call succeeded; if not, only the window has changed. The
  result is handed back either way.
\<close>

theorem C7_closed_success:
  assumes "state cb = CLOSED" and "func w = (Returns r, w')"
  shows "let xs = items (recent_calls cb);
             xs' = (if maxlen (recent_calls cb) < length xs + 1
                    then tl (xs @ [True]) else xs @ [True]);
             rate = (if xs' = [] then 0
                     else float_mul
                            (float_div (length (filter (\<lambda>ok. \<not> ok) xs')) (length xs')) 100);
             cb1 = cb\<lparr>recent_calls := (recent_calls cb)\<lparr>items := xs'\<rparr>\<rparr>;
             res = call clock cb func w
         in result res = Inr r
            \<and> current_failure_rate cb1 = rate
            \<and> (failure_rate_threshold cb < rate \<longrightarrow>
                 breaker res = cb1\<lparr>state := OPEN, last_failure_time := Some (clock w')\<rparr>)
            \<and> (\<not> failure_rate_threshold cb < rate \<longrightarrow> breaker res = cb1)"
  using assms
  by (simp add: closed_call_returns deque_append_def Let_def current_failure_rate_def
      deque_count_def)

theorem C7_closed_success_witness:
  "breaker (call fst (demo_breaker\<lparr>recent_calls := \<lparr>maxlen = 4, items = [False, False]\<rparr>\<rparr>)
              (stub_service False) (7, 0))
     = demo_breaker\<lparr>recent_calls := \<lparr>maxlen = 4, items = [False, False, True]\<rparr>,
         state := OPEN, last_failure_time := Some 8\<rparr>
   \<and> current_failure_rate
        (demo_breaker\<lparr>recent_calls := \<lparr>maxlen = 4, items = [False, False, True]\<rparr>\<rparr>)
     = 2345624805922133 / 35184372088832
   \<and> breaker (call fst (demo_breaker\<lparr>recent_calls := \<lparr>maxlen = 4, items = [True, False]\<rparr>\<rparr>)
              (stub_service False) (7, 0))
     = demo_breaker\<lparr>recent_calls := \<lparr>maxlen = 4, items = [True, False, True]\<rparr>\<rparr>
   \<and> current_failure_rate
        (demo_breaker\<lparr>recent_calls := \<lparr>maxlen = 4, items = [True, False, True]\<rparr>\<rparr>)
     = 2345624805922133 / 70368744177664"
proof -
  have f: "stub_service False (7, 0) = (Returns ''Success!'', (8, 1))"
    by (simp add: stub_service_def unstable_service_def)
  have c: "state (demo_breaker\<lparr>recent_calls := \<lparr>maxlen = 4, items = [False, False]\<rparr>\<rparr>) = CLOSED"
    "state (demo_breaker\<lparr>recent_calls := \<lparr>maxlen = 4, items = [True, False]\<rparr>\<rparr>) = CLOSED"
    by (simp_all add: demo_breaker_def)
  have two: "float_mul (float_div (Suc (Suc 0)) (Suc (Suc (Suc 0)))) 100
      = 2345624805922133 / 35184372088832"
    using to_double_two_thirds by (simp add: numeral_2_eq_2 numeral_3_eq_3)
  have one: "float_mul (float_div (Suc 0) (Suc (Suc (Suc 0)))) 100
      = 2345624805922133 / 70368744177664"
    using to_double_one_third by (simp add: numeral_3_eq_3)
  from C7_closed_success [where func = "stub_service False" and w = "(7, 0)" and clock = fst,
      OF c(1) f]
  have a: "breaker (call fst (demo_breaker\<lparr>recent_calls := \<lparr>maxlen = 4, items = [False, False]\<rparr>\<rparr>)
              (stub_service False) (7, 0))
     = demo_breaker\<lparr>recent_calls := \<lparr>maxlen = 4, items = [False, False, True]\<rparr>,
         state := OPEN, last_failure_time := Some 8\<rparr>
     \<and> current_failure_rate
        (demo_breaker\<lparr>recent_calls := \<lparr>maxlen = 4, items = [False, False, True]\<rparr>\<rparr>)
     = 2345624805922133 / 35184372088832"
    by (simp add: Let_def demo_breaker_def two)
  from C7_closed_success [where func = "stub_service False" and w = "(7, 0)" and clock = fst,
      OF c(2) f]
  have b: "breaker (call fst (demo_breaker\<lparr>recent_calls := \<lparr>maxlen = 4, items = [True, False]\<rparr>\<rparr>)
              (stub_service False) (7, 0))
     = demo_breaker\<lparr>recent_calls := \<lparr>maxlen = 4, items = [True, False, True]\<rparr>\<rparr>
     \<and> current_failure_rate
        (demo_breaker\<lparr>recent_calls := \<lparr>maxlen = 4, items = [True, False, True]\<rparr>\<rparr>)
     = 2345624805922133 / 70368744177664"
    by (simp add: Let_def demo_breaker_def one)
  from a b show ?thesis by simp
qed

section \<open>Properties of reachable breakers\<close>

lemma rate_FT: "items (recent_calls cb) = [False, True] \<Longrightarrow> current_failure_rate cb = 50"
  using to_double_half by (simp add: current_failure_rate_def deque_count_def numeral_2_eq_2)

lemma small_breaker_reachable: "reachable small_breaker"
proof -
  let ?c0 = "small_breaker\<lparr>recent_calls := \<lparr>maxlen = 2, items = []\<rparr>\<rparr>"
  let ?c1 = "small_breaker\<lparr>recent_calls := \<lparr>maxlen = 2, items = [True]\<rparr>\<rparr>"
  have "CircuitBreaker_init 50 2 2 3 = Inr ?c0"
    by (simp add: CircuitBreaker_init_def small_breaker_def)
  then have r0: "reachable ?c0" by (rule reachable_init)
  have s1: "breaker (call fst ?c0 (stub_service False) (7, 0)) = ?c1"
    by (simp add: call_eval small_breaker_def rate_T)
  have "reachable (breaker (call fst ?c0 (stub_service False) (7, 0)))"
    by (rule reachable_call_any [OF r0])
  with s1 have r1: "reachable ?c1" by simp
  have s2: "breaker (call fst ?c1 (stub_service True) (8, 0)) = small_breaker"
    by (simp add: call_eval small_breaker_def rate_TF)
  have "reachable (breaker (call fst ?c1 (stub_service True) (8, 0)))"
    by (rule reachable_call_any [OF r1])
  with s2 show ?thesis by simp
qed

text \<open>
  C9. In every reachable breaker the window holds at most \<open>window_size\<close> entries. A call
  that returns or raises while such a breaker is CLOSED appends its outcome at the end
  of the window, and when the window is already at \<open>window_size\<close> the entry at the
  front, the oldest, is dropped.
\<close>

theorem C9_window_bounded:
  assumes "reachable cb"
  shows "int (length (items (recent_calls cb))) \<le> window_size cb
     \<and> (state cb = CLOSED \<longrightarrow>
          (let xs = items (recent_calls cb);
               push = (\<lambda>b. if int (length xs) = window_size cb then tl (xs @ [b]) else xs @ [b]);
               xs' = items (recent_calls (breaker (call clock cb func w)))
           in (fst (func w) = Returns r \<longrightarrow> xs' = push True)
              \<and> (fst (func w) = Raises e \<longrightarrow> xs' = push False)))"
proof -
  from assms have inv: "breaker_inv cb" by (rule reachable_inv)
  then have len: "int (length (items (recent_calls cb))) \<le> window_size cb"
    unfolding breaker_inv_def by linarith
  from inv have full: "maxlen (recent_calls cb) < length (items (recent_calls cb)) + 1
      \<longleftrightarrow> int (length (items (recent_calls cb))) = window_size cb"
    unfolding breaker_inv_def by linarith
  obtain oc w' where f: "func w = (oc, w')" by (cases "func w")
  have ret: "state cb = CLOSED \<Longrightarrow> oc = Returns r \<Longrightarrow>
      items (recent_calls (breaker (call clock cb func w)))
        = items (deque_append (recent_calls cb) True)"
    using f by (simp add: closed_call_returns Let_def)
  have rai: "state cb = CLOSED \<Longrightarrow> oc = Raises e \<Longrightarrow>
      items (recent_calls (breaker (call clock cb func w)))
        = items (deque_append (recent_calls cb) False)"
    using f by (simp add: closed_call_raises Let_def)
  from len full f ret rai show ?thesis
    by (simp add: Let_def deque_append_def)
qed

theorem C9_window_bounded_witness:
  "reachable small_breaker
   \<and> int (length (items (recent_calls small_breaker))) = window_size small_breaker
   \<and> items (recent_calls small_breaker) = [True, False]
   \<and> items (recent_calls (breaker (call fst small_breaker (stub_service False) (9, 0))))
       = [False, True]"
proof -
  have f: "fst (stub_service False (9, 0)) = Returns ''Success!''"
    by (simp add: stub_service_def unstable_service_def)
  have c: "state small_breaker = CLOSED" by (simp add: small_breaker_def)
  from C9_window_bounded [OF small_breaker_reachable, of fst "stub_service False" "(9, 0)"
      "''Success!''" "''Service failed!''"] f c
  have "items (recent_calls (breaker (call fst small_breaker (stub_service False) (9, 0))))
       = [False, True]"
    by (simp add: Let_def small_breaker_def)
  then show ?thesis using small_breaker_reachable by (simp add: small_breaker_def)
qed

text \<open>
  C10. In every reachable breaker that is HALF_OPEN, \<open>half_open_success\<close> equals
  \<open>half_open_calls\<close>. So recording a success there leaves the breaker CLOSED exactly when
  \<open>half_open_calls\<close>, once incremented, has reached \<open>half_open_max_calls\<close>, and HALF_OPEN
  otherwise; the same holds of an admitted call that returns.
\<close>

theorem C10_half_open_all_succeeded:
  assumes "reachable cb" and "state cb = HALF_OPEN"
  shows "half_open_success cb = half_open_calls cb
     \<and> state (fst (on_success now cb))
         = (if half_open_max_calls cb \<le> half_open_calls cb + 1 then CLOSED else HALF_OPEN)
     \<and> (half_open_calls cb < half_open_max_calls cb \<and> fst (func w) = Returns r \<longrightarrow>
          state (breaker (call clock cb func w))
            = (if half_open_max_calls cb \<le> half_open_calls cb + 1 then CLOSED else HALF_OPEN))"
proof -
  from assms have eq: "half_open_success cb = half_open_calls cb"
    by (auto dest: reachable_inv simp: breaker_inv_def)
  have os: "state (fst (on_success now cb))
         = (if half_open_max_calls cb \<le> half_open_calls cb + 1 then CLOSED else HALF_OPEN)"
    for now
    using assms(2) eq by (simp add: on_success_def transition_to_closed_def Let_def)
  obtain oc w' where f: "func w = (oc, w')" by (cases "func w")
  have "state (breaker (call clock cb func w)) = state (fst (on_success (clock w') cb))"
    if "half_open_calls cb < half_open_max_calls cb" "oc = Returns r"
    using that f assms(2) by (simp add: call_def open_check_def split_beta)
  with eq os f show ?thesis by simp
qed

theorem C10_half_open_all_succeeded_witness:
  "reachable probing_breaker \<and> state probing_breaker = HALF_OPEN
   \<and> half_open_success probing_breaker = half_open_calls probing_breaker
   \<and> state (fst (on_success 16 probing_breaker)) = CLOSED
   \<and> state (breaker (call fst probing_breaker (stub_service False) (15, 4))) = CLOSED"
proof -
  have h: "state probing_breaker = HALF_OPEN" by (simp add: probing_breaker_def)
  have f: "fst (stub_service False (15, 4)) = Returns ''Success!''"
    by (simp add: stub_service_def unstable_service_def)
  from C10_half_open_all_succeeded [OF probing_breaker_reachable h, of 16 "stub_service False"
      "(15, 4)" "''Success!''" fst] f
  have "half_open_success probing_breaker = half_open_calls probing_breaker
   \<and> state (fst (on_success 16 probing_breaker)) = CLOSED
   \<and> state (breaker (call fst probing_breaker (stub_service False) (15, 4))) = CLOSED"
    by (simp add: probing_breaker_def)
  with probing_breaker_reachable h show ?thesis by simp
qed

section \<open>Construction\<close>

text \<open>
  C5, as the specification has it: construction with a \<open>window_size\<close> that is not
  positive, a \<open>failure_rate_threshold\<close> outside 0 to 100, a \<open>half_open_max_calls\<close> that is
  not positive or a negative \<open>open_state_wait\<close> fails with a configuration error. The
  constructor has no check of its own: each of these configurations yields a breaker.
\<close>

theorem C5_invalid_configuration_counterexample:
  "CircuitBreaker_init 50 0 2 3
     = Inr (demo_breaker\<lparr>window_size := 0, recent_calls := \<lparr>maxlen = 0, items = []\<rparr>\<rparr>)
   \<and> CircuitBreaker_init 150 4 2 3 = Inr (demo_breaker\<lparr>failure_rate_threshold := 150\<rparr>)
   \<and> CircuitBreaker_init (- 5) 4 2 3 = Inr (demo_breaker\<lparr>failure_rate_threshold := - 5\<rparr>)
   \<and> CircuitBreaker_init 50 4 0 3 = Inr (demo_breaker\<lparr>half_open_max_calls := 0\<rparr>)
   \<and> CircuitBreaker_init 50 4 (- 2) 3 = Inr (demo_breaker\<lparr>half_open_max_calls := - 2\<rparr>)
   \<and> CircuitBreaker_init 50 4 2 (- 1) = Inr (demo_breaker\<lparr>open_state_wait := - 1\<rparr>)"
  by (simp add: CircuitBreaker_init_def demo_breaker_def)

text \<open>
  C5, as the code has it: the constructor has no check of its own. Construction fails
  exactly when \<open>window_size\<close> is negative or does not fit 64 signed bits, with the
  \<open>ValueError\<close> or the \<open>OverflowError\<close> of the deque; every other configuration, a
  \<open>window_size\<close> of 0 included, yields a CLOSED breaker that holds the four values as
  given, with an empty window, no trip time and both counters at 0.
\<close>

theorem C5_construction:
  "(wsize < - (2 ^ 63) \<or> 2 ^ 63 \<le> wsize \<longrightarrow>
      CircuitBreaker_init threshold wsize max_calls wait
        = Inl (OverflowError ''Python int too large to convert to C ssize_t''))
   \<and> (- (2 ^ 63) \<le> wsize \<and> wsize < 0 \<longrightarrow>
      CircuitBreaker_init threshold wsize max_calls wait
        = Inl (ValueError ''maxlen must be non-negative''))
   \<and> (0 \<le> wsize \<and> wsize < 2 ^ 63 \<longrightarrow>
        (\<exists>cb. CircuitBreaker_init threshold wsize max_calls wait = Inr cb
           \<and> failure_rate_threshold cb = threshold \<and> window_size cb = wsize
           \<and> half_open_max_calls cb = max_calls \<and> open_state_wait cb = wait
           \<and> state cb = CLOSED \<and> items (recent_calls cb) = []
           \<and> maxlen (recent_calls cb) = nat wsize
           \<and> last_failure_time cb = None
           \<and> half_open_calls cb = 0 \<and> half_open_success cb = 0))"
  by (auto simp: CircuitBreaker_init_def)

theorem C5_construction_witness:
  "CircuitBreaker_init 50 (2 ^ 63) 2 3
     = Inl (OverflowError ''Python int too large to convert to C ssize_t'')
   \<and> CircuitBreaker_init 50 (- (2 ^ 63) - 1) 2 3
     = Inl (OverflowError ''Python int too large to convert to C ssize_t'')
   \<and> CircuitBreaker_init 50 (- 1) 2 3 = Inl (ValueError ''maxlen must be non-negative'')
   \<and> (\<exists>cb. CircuitBreaker_init 150 0 0 (- 1) = Inr cb
         \<and> failure_rate_threshold cb = 150 \<and> window_size cb = 0
         \<and> half_open_max_calls cb = 0 \<and> open_state_wait cb = - 1
         \<and> state cb = CLOSED \<and> items (recent_calls cb) = []
         \<and> maxlen (recent_calls cb) = 0
         \<and> last_failure_time cb = None
         \<and> half_open_calls cb = 0 \<and> half_open_success cb = 0)"
  using C5_construction [of "2 ^ 63" 50 2 3] C5_construction [of "- (2 ^ 63) - 1" 50 2 3]
    C5_construction [of "- 1" 50 2 3] C5_construction [of 0 150 0 "- 1"]
  by simp

section \<open>What a transition shows\<close>

text \<open>
  C6, as the specification has it: every transition produces an event holding the
  previous mode, the new mode and a timestamp, handed to a callback or a stream, and
  the breaker formats and prints nothing. The breaker has no callback and no stream;
  all a transition shows is a line that the breaker formats and prints itself. Two
  trips, one from CLOSED timed at 10 and one from HALF_OPEN timed at 21, print the same
  line, so the line holds neither the previous mode nor the time.
\<close>

theorem C6_transition_events_counterexample:
  "state (demo_breaker\<lparr>recent_calls := \<lparr>maxlen = 4, items = [True, False]\<rparr>\<rparr>) = CLOSED
   \<and> call fst (demo_breaker\<lparr>recent_calls := \<lparr>maxlen = 4, items = [True, False]\<rparr>\<rparr>)
        (stub_service True) (9, 2)
      = \<lparr>result = Inl (Func ''Service failed!''), breaker = tripped_breaker,
         world = (10, 3), printed = [''[TRANSITION] '' @ arrow @ '' OPEN'']\<rparr>
   \<and> state probing_breaker = HALF_OPEN
   \<and> call fst probing_breaker (stub_service True) (20, 4)
      = \<lparr>result = Inl (Func ''Service failed!''),
         breaker = probing_breaker\<lparr>half_open_calls := 2, state := OPEN,
                     last_failure_time := Some 21\<rparr>,
         world = (21, 5), printed = [''[TRANSITION] '' @ arrow @ '' OPEN'']\<rparr>
   \<and> last_failure_time tripped_breaker = Some 10"
  using demo_step3
  by (simp add: call_eval demo_breaker_def probing_breaker_def tripped_breaker_def)

lemma printed_on_success:
  "snd (on_success now cb) = [] \<and> state (fst (on_success now cb)) = state cb
   \<or> snd (on_success now cb) = [transition_line (state (fst (on_success now cb)))]"
  by (simp add: on_success_def transition_to_open_def transition_to_closed_def
      transition_line_def Let_def)

lemma printed_on_failure:
  "snd (on_failure now cb) = [] \<and> state (fst (on_failure now cb)) = state cb
   \<or> snd (on_failure now cb) = [transition_line (state (fst (on_failure now cb)))]"
  by (simp add: on_failure_def transition_to_open_def transition_line_def Let_def)

lemma printed_open_check:
  "open_check now cb = Inr (cb1, out1) \<Longrightarrow>
   out1 = [] \<and> cb1 = cb \<or> out1 = [transition_line (state cb1)]"
  by (auto simp: open_check_def transition_to_half_open_def transition_line_def
      split: if_splits option.splits)

lemma printed_call:
  "(printed (call clock cb func w) = [] \<longrightarrow> state (breaker (call clock cb func w)) = state cb)
   \<and> (printed (call clock cb func w) \<noteq> [] \<longrightarrow>
        last (printed (call clock cb func w))
          = transition_line (state (breaker (call clock cb func w))))"
proof (cases "open_check (clock w) cb")
  case (Inl err)
  then show ?thesis by (simp add: call_def)
next
  case (Inr p)
  obtain cb1 out1 where p: "p = (cb1, out1)" by (cases p)
  from Inr p have o: "out1 = [] \<and> cb1 = cb \<or> out1 = [transition_line (state cb1)]"
    by (auto dest: printed_open_check)
  obtain oc w' where f: "func w = (oc, w')" by (cases "func w")
  show ?thesis
  proof (cases "state cb1 = HALF_OPEN \<and> half_open_max_calls cb1 \<le> half_open_calls cb1")
    case True
    with Inr p o show ?thesis by (auto simp: call_def)
  next
    case False
    show ?thesis
    proof (cases oc)
      case (Returns r)
      with Inr p f False o printed_on_success [of "clock w'" cb1] show ?thesis
        by (auto simp: call_def split_beta)
    next
      case (Raises e)
      with Inr p f False o printed_on_failure [of "clock w'" cb1] show ?thesis
        by (auto simp: call_def split_beta)
    next
      case (RaisesBase e)
      with Inr p f False o show ?thesis by (auto simp: call_def)
    qed
  qed
qed

text \<open>
  C6, as the code has it: each transition helper sets the mode and prints one line,
  which names the new mode and nothing else. For a call, if nothing is printed the mode
  is the one before the call, and if something is printed the last line names the mode
  the breaker is left in.
\<close>

theorem C6_transitions_printed:
  "transition_to_open now cb
     = (cb\<lparr>state := OPEN, last_failure_time := Some now\<rparr>, [transition_line OPEN])
   \<and> transition_to_half_open cb
     = (cb\<lparr>state := HALF_OPEN, half_open_calls := 0, half_open_success := 0\<rparr>,
        [transition_line HALF_OPEN])
   \<and> transition_to_closed cb
     = (cb\<lparr>state := CLOSED, recent_calls := (recent_calls cb)\<lparr>items := []\<rparr>\<rparr>,
        [transition_line CLOSED])
   \<and> (printed (call clock cb func w) = [] \<longrightarrow>
        state (breaker (call clock cb func w)) = state cb)
   \<and> (printed (call clock cb func w) \<noteq> [] \<longrightarrow>
        last (printed (call clock cb func w))
          = transition_line (state (breaker (call clock cb func w))))"
  using printed_call [of clock cb func w]
  by (simp add: transition_to_open_def transition_to_half_open_def transition_to_closed_def
      transition_line_def deque_clear_def)

theorem C6_transitions_printed_witness:
  "printed (call fst tripped_breaker (stub_service False) (14, 3)) = [transition_line HALF_OPEN]
   \<and> state (breaker (call fst tripped_breaker (stub_service False) (14, 3))) = HALF_OPEN
   \<and> printed (call fst demo_breaker (stub_service False) (7, 0)) = []
   \<and> state (breaker (call fst demo_breaker (stub_service False) (7, 0))) = state demo_breaker"
proof -
  have a: "printed (call fst tripped_breaker (stub_service False) (14, 3))
      = [transition_line HALF_OPEN]"
    using demo_step5 by simp
  have b: "printed (call fst demo_breaker (stub_service False) (7, 0)) = []"
    using demo_step1 by simp
  from C6_transitions_printed [of 0 tripped_breaker fst "stub_service False" "(14, 3)"] a
  have c: "transition_line (state (breaker (call fst tripped_breaker (stub_service False) (14, 3))))
      = transition_line HALF_OPEN"
    by simp
  have "state (breaker (call fst tripped_breaker (stub_service False) (14, 3))) = HALF_OPEN"
    using c by (cases "state (breaker (call fst tripped_breaker (stub_service False) (14, 3)))")
      (simp_all add: transition_line_def)
  moreover from C6_transitions_printed [of 0 demo_breaker fst "stub_service False" "(7, 0)"] b
  have "state (breaker (call fst demo_breaker (stub_service False) (7, 0))) = state demo_breaker"
    by simp
  ultimately show ?thesis using a b by simp
qed

end
